theory Spec2Isabelle
  imports Complex_Main
begin

section \<open>JavaScript values\<close>

text \<open>
  The licence code reads the authority's replies and the cache file as untyped JSON
  (\<open>data as any\<close>, \<open>JSON.parse\<close>), so the model carries the values that
  \<open>JSON.parse\<close> builds. A JavaScript value is such a value or \<open>undefined\<close>
  (\<open>None\<close>). A number is finite, an infinity (\<open>JSON.parse\<close> reads \<open>1e999\<close> as
  \<open>Infinity\<close>) or \<open>NaN\<close> (which \<open>Math.ceil\<close> may return; no JSON text gives it).
  The code only copies numbers and tests them for truthiness, so a finite number is a
  rational here, and minus zero is zero, as it is for \<open>===\<close>. An object is the list
  of its members as \<open>JSON.parse\<close> built it, one entry per member name.
\<close>

datatype jsnumber = Finite rat | PlusInfinity | MinusInfinity | NaN

datatype json =
    JNull
  | JBool bool
  | JNum jsnumber
  | JStr string
  | JArr "json list"
  | JObj "(string \<times> json) list"

type_synonym jsval = "json option"

text \<open>The message of a thrown \<open>Error\<close>: a text of the program, or a text worded by
  the JavaScript engine (a \<open>TypeError\<close>). A thrown error is identified with its
  message, the only part of it that the code reads.\<close>

datatype message = Text string | EngineText

type_synonym error = message

fun truthy :: "jsval \<Rightarrow> bool" where
  "truthy None = False"
| "truthy (Some JNull) = False"
| "truthy (Some (JBool b)) = b"
| "truthy (Some (JNum n)) = (n \<noteq> Finite 0 \<and> n \<noteq> NaN)"
| "truthy (Some (JStr s)) = (s \<noteq> [])"
| "truthy (Some (JArr xs)) = True"
| "truthy (Some (JObj kvs)) = True"

text \<open>\<open>v.k\<close> on a receiver that is neither \<open>null\<close> nor \<open>undefined\<close>. The code reads
  fixed member names only, none of which a prototype of \<open>Object\<close>, \<open>Array\<close>,
  \<open>String\<close>, \<open>Number\<close> or \<open>Boolean\<close> defines, so a primitive or an array has none
  of them.\<close>

fun member :: "json \<Rightarrow> string \<Rightarrow> jsval" where
  "member (JObj kvs) k = map_of kvs k"
| "member v k = None"

text \<open>\<open>v.k\<close> on any receiver: a \<open>TypeError\<close> on \<open>null\<close> and \<open>undefined\<close>.\<close>

fun read_member :: "jsval \<Rightarrow> string \<Rightarrow> error + jsval" where
  "read_member None k = Inl EngineText"
| "read_member (Some JNull) k = Inl EngineText"
| "read_member (Some v) k = Inr (member v k)"

text \<open>\<open>v?.k\<close>.\<close>

fun optional_member :: "jsval \<Rightarrow> string \<Rightarrow> jsval" where
  "optional_member None k = None"
| "optional_member (Some JNull) k = None"
| "optional_member (Some v) k = member v k"

text \<open>\<open>v || d\<close> with a default that is a value, and \<open>v || undefined\<close>.\<close>

fun js_or :: "jsval \<Rightarrow> json \<Rightarrow> json" where
  "js_or None d = d"
| "js_or (Some v) d = (if truthy (Some v) then v else d)"

definition or_undefined :: "jsval \<Rightarrow> jsval" where
  "or_undefined v = (if truthy v then v else None)"

text \<open>\<open>String.prototype.trim\<close> removes white space and line terminators at both
  ends. Strings are lists of 8-bit characters here, so the white space of the model is
  the part of JavaScript's that fits: tab, line feed, vertical tab, form feed, carriage
  return, space and the no-break space.\<close>

definition is_whitespace :: "char \<Rightarrow> bool" where
  "is_whitespace c = (of_char c \<in> {9, 10, 11, 12, 13, 32, 160 :: nat})"

definition trim :: "string \<Rightarrow> string" where
  "trim s = rev (dropWhile is_whitespace (rev (dropWhile is_whitespace s)))"

text \<open>\<open>String.prototype.includes\<close>.\<close>

fun starts_with :: "string \<Rightarrow> string \<Rightarrow> bool" where
  "starts_with s [] = True"
| "starts_with [] (c # cs) = False"
| "starts_with (x # xs) (c # cs) = (x = c \<and> starts_with xs cs)"

fun string_includes :: "string \<Rightarrow> string \<Rightarrow> bool" where
  "string_includes [] t = (t = [])"
| "string_includes (x # xs) t = (starts_with (x # xs) t \<or> string_includes xs t)"

text \<open>\<open>ToString\<close>, as a template literal and \<open>Array.prototype.join\<close> apply it,
  returns for every primitive. For an object it calls the object's \<open>toString\<close> and
  then its \<open>valueOf\<close>: a parsed object that has a member named \<open>toString\<close> hides
  the inherited method behind a value that cannot be called, the remaining
  \<open>valueOf\<close> gives no primitive, and the conversion is a \<open>TypeError\<close>. An array
  joins the conversions of its items.\<close>

fun converts_to_string :: "json \<Rightarrow> bool" where
  "converts_to_string (JArr xs) = list_all converts_to_string xs"
| "converts_to_string (JObj kvs) = (map_of kvs ''toString'' = None)"
| "converts_to_string v = True"

text \<open>The value that \<open>JSON.parse\<close> reads from the text that \<open>JSON.stringify\<close>
  writes for a value: \<open>JSON.stringify\<close> writes \<open>null\<close> for a number that is not
  finite, and every other value in a notation that reads as the same value.\<close>

primrec as_written :: "json \<Rightarrow> json" where
  "as_written JNull = JNull"
| "as_written (JBool b) = JBool b"
| "as_written (JNum n) = (case n of Finite q \<Rightarrow> JNum (Finite q) | _ \<Rightarrow> JNull)"
| "as_written (JStr s) = JStr s"
| "as_written (JArr xs) = JArr (map as_written xs)"
| "as_written (JObj kvs) = JObj (map (map_prod id as_written) kvs)"

section \<open>The remote authority client (KeygenService)\<close>

record KeygenLicense =
  kl_id :: jsval
  kl_key :: jsval
  kl_name :: jsval
  kl_status :: jsval
  kl_expiry :: jsval
  kl_maxActivations :: jsval
  kl_activations :: jsval
  kl_metadata :: json
  kl_created :: jsval
  kl_updated :: jsval

record KeygenActivation =
  ka_id :: jsval
  ka_fingerprint :: jsval
  ka_platform :: jsval
  ka_hostname :: jsval
  ka_created :: jsval

record KeygenValidationResponse =
  valid :: bool
  license :: "KeygenLicense option"
  activations :: "KeygenActivation list option"
  message :: "message option"
  code :: "string option"

record KeygenActivationResponse =
  success :: bool
  activation :: "KeygenActivation option"
  a_message :: "message option"
  a_code :: "string option"

text \<open>The network. A request is the action called with the key (and the machine
  fingerprint) it carries; the account, product and API key are constants of the
  client. \<open>fetch\<close> rejects (\<open>Inl\<close>) or resolves to a response, whose body is read
  with \<open>response.text()\<close> or \<open>response.json()\<close>; each may reject, the second also
  when the body is not JSON.\<close>

datatype request = ValidateKeyRequest string | ActivateRequest string string

record response =
  status :: nat
  text_body :: "error + string"
  json_body :: "error + json"

type_synonym network = "request \<Rightarrow> error + response"

definition ok :: "response \<Rightarrow> bool" where
  "ok r = (200 \<le> status r \<and> status r \<le> 299)"

definition parseLicenseData :: "json \<Rightarrow> KeygenLicense" where
  "parseLicenseData data =
     (let attributes = js_or (member data ''attributes'') (JObj [])
      in \<lparr> kl_id = member data ''id'',
           kl_key = member attributes ''key'',
           kl_name = member attributes ''name'',
           kl_status = member attributes ''status'',
           kl_expiry = member attributes ''expiry'',
           kl_maxActivations = member attributes ''maxActivations'',
           kl_activations = Some (js_or (member attributes ''activations'') (JNum (Finite 0))),
           kl_metadata = js_or (member attributes ''metadata'') (JObj []),
           kl_created = member attributes ''created'',
           kl_updated = member attributes ''updated'' \<rparr>)"

definition parseActivationData :: "json \<Rightarrow> KeygenActivation" where
  "parseActivationData data =
     (let attributes = js_or (member data ''attributes'') (JObj [])
      in \<lparr> ka_id = member data ''id'',
           ka_fingerprint = member attributes ''fingerprint'',
           ka_platform = member attributes ''platform'',
           ka_hostname = member attributes ''hostname'',
           ka_created = member attributes ''created'' \<rparr>)"

text \<open>\<open>keygenResponse.included?.filter(item => item.type === 'activations')
  .map(item => parseActivationData(item)) || []\<close>: nothing to do when \<open>included\<close> is
  absent or \<open>null\<close>; on an array the filter reads \<open>item.type\<close> of every item, a
  \<open>TypeError\<close> on a \<open>null\<close> item; any other value has no callable \<open>filter\<close>.\<close>

fun parseIncluded :: "jsval \<Rightarrow> error + KeygenActivation list" where
  "parseIncluded None = Inr []"
| "parseIncluded (Some JNull) = Inr []"
| "parseIncluded (Some (JArr items)) =
     (if JNull \<in> set items then Inl EngineText
      else Inr (map parseActivationData
                 (filter (\<lambda>item. member item ''type'' = Some (JStr ''activations'')) items)))"
| "parseIncluded (Some v) = Inl EngineText"

text \<open>The part of \<open>validateLicense\<close> after \<open>response.json()\<close>: the reads of the
  payload, any of which may throw inside the \<open>try\<close> block.\<close>

definition parseValidation :: "json \<Rightarrow> error + KeygenValidationResponse" where
  "parseValidation keygenResponse =
     (case read_member (Some keygenResponse) ''meta'' of
        Inl e \<Rightarrow> Inl e
      | Inr meta \<Rightarrow>
          (let isValid = (optional_member meta ''valid'' = Some (JBool True));
               data = member keygenResponse ''data'';
               lic = (if truthy data then map_option parseLicenseData data else None)
           in case parseIncluded (member keygenResponse ''included'') of
                Inl e \<Rightarrow> Inl e
              | Inr acts \<Rightarrow>
                  Inr \<lparr> valid = isValid,
                        license = lic,
                        activations = Some acts,
                        message = Some (Text (if isValid then ''License is valid''
                                              else ''License is invalid'')),
                        code = Some (if isValid then ''VALID'' else ''INVALID'') \<rparr>))"

definition validation_failure :: "message \<Rightarrow> string \<Rightarrow> KeygenValidationResponse" where
  "validation_failure m c =
     \<lparr> valid = False, license = None, activations = None,
       message = Some m, code = Some c \<rparr>"

text \<open>\<open>KeygenService.validateLicense\<close>. The result comes with the requests sent, in
  order. The argument is a JavaScript value: the manager passes the key of the cached
  licence, which the cache file supplied.\<close>

definition keygen_validateLicense ::
  "network \<Rightarrow> jsval \<Rightarrow> KeygenValidationResponse \<times> request list" where
  "keygen_validateLicense net licenseKey =
     (case licenseKey of
        Some (JStr k) \<Rightarrow>
          if k = [] then
            (validation_failure (Text ''License key is required and must be a string'')
               ''INVALID_INPUT'', [])
          else
            let trimmedKey = trim k in
            if length trimmedKey = 0 then
              (validation_failure (Text ''License key cannot be empty'') ''EMPTY_KEY'', [])
            else
              (case net (ValidateKeyRequest trimmedKey) of
                 Inl e \<Rightarrow> validation_failure e ''NETWORK_ERROR''
               | Inr r \<Rightarrow>
                   if \<not> ok r then
                     (case text_body r of
                        Inl e \<Rightarrow> validation_failure e ''NETWORK_ERROR''
                      | Inr errorText \<Rightarrow>
                          if status r = 401 then
                            validation_failure (Text ''Invalid API credentials'')
                              ''UNAUTHORIZED''
                          else if status r = 404 then
                            validation_failure (Text ''License key not found'')
                              ''LICENSE_NOT_FOUND''
                          else
                            validation_failure
                              (Text ''License validation service unavailable'')
                              ''SERVICE_ERROR'')
                   else
                     (case json_body r of
                        Inl e \<Rightarrow> validation_failure e ''NETWORK_ERROR''
                      | Inr data \<Rightarrow>
                          (case parseValidation data of
                             Inl e \<Rightarrow> validation_failure e ''NETWORK_ERROR''
                           | Inr result \<Rightarrow> result)),
               [ValidateKeyRequest trimmedKey])
      | _ \<Rightarrow>
          (validation_failure (Text ''License key is required and must be a string'')
             ''INVALID_INPUT'', []))"

definition activation_failure :: "message \<Rightarrow> string \<Rightarrow> KeygenActivationResponse" where
  "activation_failure m c =
     \<lparr> success = False, activation = None, a_message = Some m, a_code = Some c \<rparr>"

text \<open>The part of \<open>activateLicense\<close> after \<open>response.json()\<close>.\<close>

definition parseActivation :: "json \<Rightarrow> error + KeygenActivationResponse" where
  "parseActivation keygenResponse =
     (case read_member (Some keygenResponse) ''data'' of
        Inl e \<Rightarrow> Inl e
      | Inr data \<Rightarrow>
          Inr \<lparr> success = True,
                activation = (if truthy data then map_option parseActivationData data
                              else None),
                a_message = Some (Text ''License activated successfully''),
                a_code = Some ''ACTIVATED'' \<rparr>)"

text \<open>\<open>KeygenService.activateLicense\<close>. The machine fingerprint is a digest of the
  host's identity, a parameter here. The key is trimmed in the request body only.\<close>

definition keygen_activateLicense ::
  "network \<Rightarrow> string \<Rightarrow> jsval \<Rightarrow> KeygenActivationResponse \<times> request list" where
  "keygen_activateLicense net fingerprint licenseKey =
     (case licenseKey of
        Some (JStr k) \<Rightarrow>
          if k = [] then
            (activation_failure (Text ''License key is required and must be a string'')
               ''INVALID_INPUT'', [])
          else
            (case net (ActivateRequest (trim k) fingerprint) of
               Inl e \<Rightarrow> activation_failure e ''NETWORK_ERROR''
             | Inr r \<Rightarrow>
                 if \<not> ok r then
                   (case text_body r of
                      Inl e \<Rightarrow> activation_failure e ''NETWORK_ERROR''
                    | Inr errorText \<Rightarrow>
                        if status r = 422 then
                          activation_failure
                            (Text ''License activation limit exceeded or already activated'')
                            ''ACTIVATION_LIMIT_EXCEEDED''
                        else if status r = 404 then
                          activation_failure (Text ''License key not found'')
                            ''LICENSE_NOT_FOUND''
                        else
                          activation_failure (Text ''License activation failed'')
                            ''ACTIVATION_FAILED'')
                 else
                   (case json_body r of
                      Inl e \<Rightarrow> activation_failure e ''NETWORK_ERROR''
                    | Inr data \<Rightarrow>
                        (case parseActivation data of
                           Inl e \<Rightarrow> activation_failure e ''NETWORK_ERROR''
                         | Inr result \<Rightarrow> result)),
             [ActivateRequest (trim k) fingerprint])
      | _ \<Rightarrow>
          (activation_failure (Text ''License key is required and must be a string'')
             ''INVALID_INPUT'', []))"

section \<open>The entitlement manager (LicenseServiceKeygen)\<close>

text \<open>The cached licence. Its fields hold what the authority's payload or the cache
  file supplied, so each is a JavaScript value; the interface \<open>License\<close> declares
  \<open>key\<close>, \<open>tier\<close> and \<open>activatedAt\<close> strings, \<open>active\<close> a boolean, \<open>features\<close>
  an array of strings, \<open>currentActivations\<close> a number, and the other three
  optional.\<close>

record License =
  key :: jsval
  tier :: jsval
  active :: jsval
  features :: jsval
  activatedAt :: jsval
  expiresAt :: jsval
  email :: jsval
  maxActivations :: jsval
  currentActivations :: jsval

record LicenseStatus =
  st_tier :: jsval
  st_active :: jsval
  st_features :: jsval
  st_daysRemaining :: "jsnumber option"
  st_activationsUsed :: jsval
  st_maxActivations :: jsval
  st_mock :: bool

text \<open>The licence file: absent, or present with a content that \<open>JSON.parse\<close> rejects
  or reads as the given value.\<close>

datatype file_content = Unparseable | JsonText json

text \<open>What a call depends on besides the manager: the network, the clock
  (\<open>new Date().toISOString()\<close>, read as one instant per call), the machine
  fingerprint, whether the file system lets
  the licence file be read, and whether it lets the directory and the file be created,
  written and removed. \<open>daysUntil\<close> is the date arithmetic of \<open>getLicenseStatus\<close>:
  the days from now to the date that \<open>new Date\<close> reads from a value, rounded up; the
  conversion may throw.\<close>

record env =
  net :: network
  now :: string
  fingerprint :: string
  readable :: bool
  writable :: bool
  daysUntil :: "json \<Rightarrow> error + jsnumber"

text \<open>The manager's field \<open>currentLicense\<close>, the licence file, and the requests sent
  to the authority so far.\<close>

record world =
  currentLicense :: "License option"
  licenseFile :: "file_content option"
  requests :: "request list"

text \<open>\<open>determineTier\<close>. \<open>keygenLicense.name?.toLowerCase()\<close> is a \<open>TypeError\<close> on a
  name that is neither absent, \<open>null\<close> nor a string; both of the remaining branches
  return \<open>'memory'\<close>.\<close>

fun lowercase_name_check :: "jsval \<Rightarrow> error + unit" where
  "lowercase_name_check None = Inr ()"
| "lowercase_name_check (Some JNull) = Inr ()"
| "lowercase_name_check (Some (JStr s)) = Inr ()"
| "lowercase_name_check (Some v) = Inl EngineText"

definition determineTier :: "KeygenLicense \<Rightarrow> error + json" where
  "determineTier keygenLicense =
     (let metadata = js_or (Some (kl_metadata keygenLicense)) (JObj []) in
      if truthy (member metadata ''tier'') then Inr (js_or (member metadata ''tier'') JNull)
      else (case lowercase_name_check (kl_name keygenLicense) of
              Inl e \<Rightarrow> Inl e
            | Inr u \<Rightarrow> Inr (JStr ''memory'')))"

definition memory_features :: "json list" where
  "memory_features =
     [JStr ''unlimited_memory'', JStr ''unlimited_projects'', JStr ''project_scanning'',
      JStr ''memory_export'', JStr ''persistent_memory'', JStr ''aes_encryption'',
      JStr ''priority_support'']"

definition determineFeatures :: "KeygenLicense \<Rightarrow> error + json" where
  "determineFeatures keygenLicense =
     (case determineTier keygenLicense of
        Inl e \<Rightarrow> Inl e
      | Inr t \<Rightarrow>
          let metadata = js_or (Some (kl_metadata keygenLicense)) (JObj []) in
          if t = JStr ''memory'' then Inr (JArr memory_features)
          else (case member metadata ''features'' of
                  Some (JArr fs) \<Rightarrow> Inr (JArr fs)
                | _ \<Rightarrow> Inr (JArr [JStr ''basic_memory'', JStr ''limited_projects''])))"

text \<open>The object that \<open>cacheLicense\<close> writes: the licence's fields, \<open>cachedAt\<close> and
  \<open>version\<close>. \<open>JSON.stringify\<close> leaves out a member whose value is \<open>undefined\<close>.\<close>

definition defined_members :: "(string \<times> jsval) list \<Rightarrow> (string \<times> json) list" where
  "defined_members kvs = List.map_filter (\<lambda>(k, v). map_option (Pair k) v) kvs"

definition cacheData :: "string \<Rightarrow> License \<Rightarrow> json" where
  "cacheData cachedAt l =
     JObj (defined_members
       [(''key'', key l), (''tier'', tier l), (''active'', active l),
        (''features'', features l), (''activatedAt'', activatedAt l),
        (''expiresAt'', expiresAt l), (''email'', email l),
        (''maxActivations'', maxActivations l),
        (''currentActivations'', currentActivations l),
        (''cachedAt'', Some (JStr cachedAt)), (''version'', Some (JStr ''2.0.0-keygen''))])"

text \<open>\<open>cacheLicense\<close> writes \<open>JSON.stringify(cacheData, null, 2)\<close>; a failure to
  create the directory or to write the file is caught and logged, never thrown.\<close>

definition cacheLicense :: "env \<Rightarrow> License \<Rightarrow> world \<Rightarrow> world" where
  "cacheLicense e l w =
     (if writable e
      then w\<lparr>licenseFile := Some (JsonText (as_written (cacheData (now e) l)))\<rparr>
      else w)"

text \<open>The \<open>catch\<close> block of \<open>loadCachedLicense\<close>: \<open>fs.unlinkSync\<close>, whose own
  failure is ignored.\<close>

definition clear_invalid_cache :: "env \<Rightarrow> world \<Rightarrow> world" where
  "clear_invalid_cache e w = (if writable e then w\<lparr>licenseFile := None\<rparr> else w)"

text \<open>The licence object that \<open>loadCachedLicense\<close> builds from the parsed file.\<close>

definition cached_license :: "json \<Rightarrow> License" where
  "cached_license cached =
     \<lparr> key = member cached ''key'',
       tier = member cached ''tier'',
       active = member cached ''active'',
       features = Some (js_or (member cached ''features'') (JArr [])),
       activatedAt = member cached ''activatedAt'',
       expiresAt = member cached ''expiresAt'',
       email = member cached ''email'',
       maxActivations = member cached ''maxActivations'',
       currentActivations = Some (js_or (member cached ''currentActivations'') (JNum (Finite 0))) \<rparr>"

definition loadCachedLicense :: "env \<Rightarrow> world \<Rightarrow> world" where
  "loadCachedLicense e w =
     (case licenseFile w of
        None \<Rightarrow> w
      | Some content \<Rightarrow>
          if \<not> readable e then clear_invalid_cache e w
          else (case content of
                  Unparseable \<Rightarrow> clear_invalid_cache e w
                | JsonText cached \<Rightarrow>
                    (case read_member (Some cached) ''version'' of
                       Inl err \<Rightarrow> clear_invalid_cache e w
                     | Inr v \<Rightarrow>
                         if v = Some (JStr ''2.0.0-keygen'') \<and> truthy (member cached ''key'')
                         then w\<lparr>currentLicense := Some (cached_license cached)\<rparr>
                         else w)))"

text \<open>The constructor: no licence in memory, then \<open>loadCachedLicense\<close>.\<close>

definition new_LicenseServiceKeygen :: "env \<Rightarrow> file_content option \<Rightarrow> world" where
  "new_LicenseServiceKeygen e f =
     loadCachedLicense e \<lparr> currentLicense = None, licenseFile = f, requests = [] \<rparr>"

text \<open>\<open>validation.message || 'License validation failed'\<close>.\<close>

fun message_or :: "message option \<Rightarrow> string \<Rightarrow> message" where
  "message_or None d = Text d"
| "message_or (Some (Text m)) d = (if m = [] then Text d else Text m)"
| "message_or (Some EngineText) d = EngineText"

text \<open>The licence object that \<open>activateLicense\<close> builds; \<open>determineTier\<close> and
  \<open>determineFeatures\<close> may throw.\<close>

definition build_license :: "env \<Rightarrow> string \<Rightarrow> KeygenLicense \<Rightarrow> error + License" where
  "build_license e trimmedKey kl =
     (case determineTier kl of
        Inl err \<Rightarrow> Inl err
      | Inr t \<Rightarrow>
          (case determineFeatures kl of
             Inl err \<Rightarrow> Inl err
           | Inr fs \<Rightarrow>
               Inr \<lparr> key = Some (JStr trimmedKey),
                     tier = Some t,
                     active = Some (JBool (kl_status kl = Some (JStr ''active''))),
                     features = Some fs,
                     activatedAt = Some (JStr (now e)),
                     expiresAt = or_undefined (kl_expiry kl),
                     email = or_undefined (optional_member (Some (kl_metadata kl)) ''email''),
                     maxActivations = or_undefined (kl_maxActivations kl),
                     currentActivations = kl_activations kl \<rparr>))"

text \<open>The two lines that \<open>activateLicense\<close> logs after caching the licence, template
  literals with \<open>${license.tier}\<close> and \<open>${license.features.join(', ')}\<close>: each
  converts to a string and may throw. Only an array has \<open>join\<close>.\<close>

definition log_license :: "License \<Rightarrow> error + unit" where
  "log_license l =
     (if \<not> (case tier l of None \<Rightarrow> True | Some t \<Rightarrow> converts_to_string t)
      then Inl EngineText
      else (case features l of
              Some (JArr fs) \<Rightarrow>
                if list_all converts_to_string fs then Inr () else Inl EngineText
            | _ \<Rightarrow> Inl EngineText))"

text \<open>\<open>LicenseServiceKeygen.activateLicense\<close>. Every error thrown in its \<open>try\<close> block
  is thrown again as an \<open>Error\<close> with the same message; the licence is cached and made
  the current one before the log lines. The parameter is a string, as the signature
  declares.\<close>

definition activateLicense :: "env \<Rightarrow> string \<Rightarrow> world \<Rightarrow> (error + License) \<times> world" where
  "activateLicense e licenseKey w =
     (if licenseKey = [] then
        (Inl (Text ''License key is required and must be a string''), w)
      else
        let trimmedKey = trim licenseKey in
        if length trimmedKey = 0 then (Inl (Text ''License key cannot be empty''), w)
        else
          let (validation, sent) = keygen_validateLicense (net e) (Some (JStr trimmedKey));
              w1 = w\<lparr>requests := requests w @ sent\<rparr>
          in case (valid validation, license validation) of
               (True, Some kl) \<Rightarrow>
                 (let (act, sent2) =
                        keygen_activateLicense (net e) (fingerprint e) (Some (JStr trimmedKey));
                      w2 = w1\<lparr>requests := requests w1 @ sent2\<rparr>
                  in case build_license e trimmedKey kl of
                       Inl err \<Rightarrow> (Inl err, w2)
                     | Inr l \<Rightarrow>
                         (let w3 = (cacheLicense e l w2)\<lparr>currentLicense := Some l\<rparr>
                          in case log_license l of
                               Inl err \<Rightarrow> (Inl err, w3)
                             | Inr u \<Rightarrow> (Inr l, w3)))
             | _ \<Rightarrow> (Inl (message_or (message validation) ''License validation failed''), w1))"

text \<open>\<open>LicenseServiceKeygen.validateLicense\<close>: the \<open>try\<close> block, then the function
  with its \<open>catch\<close> block, which answers from the cached licence.\<close>

definition validateLicense_try :: "env \<Rightarrow> world \<Rightarrow> (error + bool) \<times> world" where
  "validateLicense_try e w =
     (case currentLicense w of
        None \<Rightarrow> (Inr False, w)
      | Some cur \<Rightarrow>
          let (validation, sent) = keygen_validateLicense (net e) (key cur);
              w1 = w\<lparr>requests := requests w @ sent\<rparr>
          in (case (valid validation, license validation) of
               (True, Some kl) \<Rightarrow>
                 (let cur' = cur\<lparr>active := Some (JBool (kl_status kl = Some (JStr ''active''))),
                                currentActivations := kl_activations kl\<rparr>;
                      w2 = w1\<lparr>currentLicense := Some cur'\<rparr>;
                      w3 = cacheLicense e cur' w2
                  in (Inr (truthy (active cur')), w3))
             | _ \<Rightarrow> (Inr False, w1)))"

definition validateLicense :: "env \<Rightarrow> world \<Rightarrow> bool \<times> world" where
  "validateLicense e w =
     (case validateLicense_try e w of
        (Inr b, w') \<Rightarrow> (b, w')
      | (Inl err, w') \<Rightarrow>
          ((case currentLicense w' of None \<Rightarrow> False | Some l \<Rightarrow> truthy (active l)), w'))"

definition getCurrentLicense :: "world \<Rightarrow> error + License" where
  "getCurrentLicense w =
     (case currentLicense w of
        None \<Rightarrow>
          Inl (Text ''No active license found. Please run: codecontextpro activate <LICENSE_KEY>'')
      | Some l \<Rightarrow> Inr l)"

text \<open>\<open>license.features.includes(feature)\<close>: the method of an array or of a string;
  a \<open>TypeError\<close> on any other value.\<close>

fun js_includes :: "jsval \<Rightarrow> string \<Rightarrow> error + bool" where
  "js_includes (Some (JArr xs)) f = Inr (JStr f \<in> set xs)"
| "js_includes (Some (JStr s)) f = Inr (string_includes s f)"
| "js_includes v f = Inl EngineText"

definition hasFeature :: "world \<Rightarrow> string \<Rightarrow> bool" where
  "hasFeature w feature =
     (if feature = [] then False
      else case getCurrentLicense w of
             Inl err \<Rightarrow> False
           | Inr l \<Rightarrow>
               if \<not> truthy (active l) then False
               else (case js_includes (features l) feature of
                       Inl err \<Rightarrow> False
                     | Inr b \<Rightarrow> b))"

definition operationFeatureMap :: "(string \<times> string) list" where
  "operationFeatureMap =
     [(''remember'', ''unlimited_memory''),
      (''recall'', ''unlimited_memory''),
      (''scan'', ''project_scanning''),
      (''export'', ''memory_export''),
      (''sync'', ''cloud_sync'')]"

text \<open>The map is an object literal, so \<open>operationFeatureMap[operation]\<close> also finds
  what \<open>Object.prototype\<close> defines: for these names the read gives a function (for
  \<open>__proto__\<close> the prototype object), which is truthy and not a string.\<close>

definition object_prototype_names :: "string list" where
  "object_prototype_names =
     [''constructor'', ''hasOwnProperty'', ''isPrototypeOf'', ''propertyIsEnumerable'',
      ''toLocaleString'', ''toString'', ''valueOf'', ''__proto__'',
      ''__defineGetter__'', ''__defineSetter__'', ''__lookupGetter__'',
      ''__lookupSetter__'']"

datatype property = Own string | Inherited | Undefined

definition requiredFeature :: "string \<Rightarrow> property" where
  "requiredFeature operation =
     (case map_of operationFeatureMap operation of
        Some f \<Rightarrow> Own f
      | None \<Rightarrow> if operation \<in> set object_prototype_names then Inherited else Undefined)"

text \<open>\<open>canPerformOperation\<close>. An inherited property is passed to \<open>hasFeature\<close>, which
  returns \<open>false\<close> for a feature that is not a string.\<close>

definition canPerformOperation :: "world \<Rightarrow> string \<Rightarrow> bool" where
  "canPerformOperation w operation =
     (if operation = [] then False
      else case getCurrentLicense w of
             Inl err \<Rightarrow> False
           | Inr l \<Rightarrow>
               if \<not> truthy (active l) then False
               else (case requiredFeature operation of
                       Own f \<Rightarrow> hasFeature w f
                     | Inherited \<Rightarrow> False
                     | Undefined \<Rightarrow> True))"

text \<open>\<open>getLicenseStatus\<close>: the \<open>try\<close> block, then the function with its \<open>catch\<close>
  block.\<close>

definition getLicenseStatus_try :: "env \<Rightarrow> world \<Rightarrow> error + LicenseStatus" where
  "getLicenseStatus_try e w =
     (case getCurrentLicense w of
        Inl err \<Rightarrow> Inl err
      | Inr l \<Rightarrow>
          (case (if truthy (expiresAt l)
                 then map_sum id Some (daysUntil e (js_or (expiresAt l) JNull))
                 else Inr None) of
             Inl err \<Rightarrow> Inl err
           | Inr days \<Rightarrow>
               Inr \<lparr> st_tier = tier l,
                     st_active = active l,
                     st_features = features l,
                     st_daysRemaining = days,
                     st_activationsUsed = currentActivations l,
                     st_maxActivations = maxActivations l,
                     st_mock = False \<rparr>))"

definition getLicenseStatus :: "env \<Rightarrow> world \<Rightarrow> LicenseStatus" where
  "getLicenseStatus e w =
     (case getLicenseStatus_try e w of
        Inr s \<Rightarrow> s
      | Inl err \<Rightarrow>
          \<lparr> st_tier = Some (JStr ''none''),
            st_active = Some (JBool False),
            st_features = Some (JArr []),
            st_daysRemaining = None,
            st_activationsUsed = Some (JNum (Finite 0)),
            st_maxActivations = None,
            st_mock = False \<rparr>)"

section \<open>Predicates of the statements\<close>

text \<open>A payload that \<open>validateLicense\<close> reads without a \<open>TypeError\<close>: it is not
  \<open>null\<close>, and its member \<open>included\<close> is absent, \<open>null\<close> or an array without a
  \<open>null\<close> item.\<close>

definition payload_decodable :: "json \<Rightarrow> bool" where
  "payload_decodable payload =
     (payload \<noteq> JNull \<and>
      (case member payload ''included'' of
         None \<Rightarrow> True
       | Some JNull \<Rightarrow> True
       | Some (JArr items) \<Rightarrow> JNull \<notin> set items
       | Some v \<Rightarrow> False))"

text \<open>The nested flag \<open>meta.valid\<close> of a payload, \<open>undefined\<close> when absent.\<close>

definition meta_valid :: "json \<Rightarrow> jsval" where
  "meta_valid payload = optional_member (member payload ''meta'') ''valid''"

text \<open>A licence whose fields have the types that the interface \<open>License\<close>
  declares.\<close>

fun is_string :: "jsval \<Rightarrow> bool" where
  "is_string (Some (JStr s)) = True"
| "is_string v = False"

fun is_boolean :: "jsval \<Rightarrow> bool" where
  "is_boolean (Some (JBool b)) = True"
| "is_boolean v = False"

fun is_number :: "jsval \<Rightarrow> bool" where
  "is_number (Some (JNum n)) = True"
| "is_number v = False"

fun is_string_array :: "jsval \<Rightarrow> bool" where
  "is_string_array (Some (JArr xs)) = list_all (\<lambda>x. is_string (Some x)) xs"
| "is_string_array v = False"

definition optional :: "(jsval \<Rightarrow> bool) \<Rightarrow> jsval \<Rightarrow> bool" where
  "optional p v = (v = None \<or> p v)"

definition conforms_License :: "License \<Rightarrow> bool" where
  "conforms_License l =
     (is_string (key l) \<and> is_string (tier l) \<and> is_boolean (active l)
      \<and> is_string_array (features l) \<and> is_string (activatedAt l)
      \<and> optional is_string (expiresAt l) \<and> optional is_string (email l)
      \<and> optional is_number (maxActivations l) \<and> is_number (currentActivations l))"

text \<open>A number that JSON has a notation for.\<close>

fun is_finite_number :: "jsval \<Rightarrow> bool" where
  "is_finite_number (Some (JNum (Finite q))) = True"
| "is_finite_number v = False"


section \<open>Sample authorities, machines and licences\<close>

text \<open>An authority that answers every key alike: one reply to \<open>validate-key\<close>, one
  to \<open>activate\<close>.\<close>

definition authority :: "(error + response) \<Rightarrow> (error + response) \<Rightarrow> network" where
  "authority validate_reply activate_reply request =
     (case request of
        ValidateKeyRequest k \<Rightarrow> validate_reply
      | ActivateRequest k f \<Rightarrow> activate_reply)"

definition unreachable :: "error + response" where
  "unreachable = Inl (Text ''fetch failed'')"

definition replies :: "nat \<Rightarrow> json \<Rightarrow> error + response" where
  "replies st payload = Inr \<lparr> status = st, text_body = Inr ''{}'', json_body = Inr payload \<rparr>"

definition refuses :: "nat \<Rightarrow> error + response" where
  "refuses st = Inr \<lparr> status = st, text_body = Inr ''{}'', json_body = Inr (JObj []) \<rparr>"

text \<open>A machine with a fixed clock and fingerprint; the second argument says whether
  the licence file can be written.\<close>

definition machine :: "network \<Rightarrow> bool \<Rightarrow> env" where
  "machine n wr =
     \<lparr> net = n, now = ''2025-01-01T00:00:00.000Z'', fingerprint = ''0f1e2d3c'',
       readable = True, writable = wr, daysUntil = (\<lambda>j. Inr NaN) \<rparr>"

definition license_data :: "string \<Rightarrow> json" where
  "license_data st =
     JObj [(''id'', JStr ''lic-1''),
           (''attributes'', JObj [(''key'', JStr ''LIC-123''), (''name'', JStr ''Memory''),
              (''status'', JStr st), (''maxActivations'', JNum (Finite 1)),
              (''activations'', JNum (Finite 1)), (''metadata'', JObj [])])]"

definition license_payload :: "bool \<Rightarrow> string \<Rightarrow> json" where
  "license_payload v st =
     JObj [(''meta'', JObj [(''valid'', JBool v)]), (''data'', license_data st)]"

definition memory_license :: License where
  "memory_license =
     \<lparr> key = Some (JStr ''LIC-123''), tier = Some (JStr ''memory''),
       active = Some (JBool True), features = Some (JArr memory_features),
       activatedAt = Some (JStr ''2025-01-01T00:00:00.000Z''), expiresAt = None,
       email = None, maxActivations = Some (JNum (Finite 1)),
       currentActivations = Some (JNum (Finite 1)) \<rparr>"

definition licensed :: world where
  "licensed =
     \<lparr> currentLicense = Some memory_license,
       licenseFile = Some (JsonText (cacheData ''2025-01-01T00:00:00.000Z'' memory_license)),
       requests = [] \<rparr>"

definition unlicensed :: world where
  "unlicensed = \<lparr> currentLicense = None, licenseFile = None, requests = [] \<rparr>"

text \<open>A valid licence without a bound on activations: the payload text has
  \<open>1e999\<close> for \<open>maxActivations\<close>.\<close>

definition unbounded_payload :: json where
  "unbounded_payload =
     JObj [(''meta'', JObj [(''valid'', JBool True)]),
           (''data'', JObj [(''id'', JStr ''lic-1''),
              (''attributes'', JObj [(''key'', JStr ''LIC-123''), (''name'', JStr ''Memory''),
                 (''status'', JStr ''active''), (''maxActivations'', JNum PlusInfinity),
                 (''activations'', JNum (Finite 1)), (''metadata'', JObj [])])])]"

text \<open>A valid licence whose metadata gives an object with a member \<open>toString\<close> as
  its tier.\<close>

definition unprintable_payload :: json where
  "unprintable_payload =
     JObj [(''meta'', JObj [(''valid'', JBool True)]),
           (''data'', JObj [(''id'', JStr ''lic-2''),
              (''attributes'', JObj [(''key'', JStr ''LIC-123''), (''name'', JStr ''x''),
                 (''status'', JStr ''active''),
                 (''metadata'', JObj [(''tier'', JObj [(''toString'', JNum (Finite 1))])])])])]"

text \<open>A cache file of an earlier schema version.\<close>

definition stale_cache :: json where
  "stale_cache =
     JObj [(''key'', JStr ''LIC-123''), (''tier'', JStr ''memory''), (''active'', JBool True),
           (''features'', JArr memory_features),
           (''activatedAt'', JStr ''2024-01-01T00:00:00.000Z''),
           (''currentActivations'', JNum (Finite 1)),
           (''cachedAt'', JStr ''2024-01-01T00:00:00.000Z''), (''version'', JStr ''1.0.0'')]"

section \<open>Lemmas\<close>

subsection \<open>Trimming\<close>

lemma trim_empty_iff: "trim k = [] \<longleftrightarrow> (\<forall>c\<in>set k. is_whitespace c)"
proof
  assume "trim k = []"
  then have all_tail: "\<forall>c\<in>set (dropWhile is_whitespace k). is_whitespace c"
    by (simp add: trim_def dropWhile_eq_Nil_conv)
  have "dropWhile is_whitespace k = []"
  proof (rule ccontr)
    assume ne: "dropWhile is_whitespace k \<noteq> []"
    then have "\<not> is_whitespace (hd (dropWhile is_whitespace k))"
      by (rule hd_dropWhile)
    moreover have "hd (dropWhile is_whitespace k) \<in> set (dropWhile is_whitespace k)"
      using ne by simp
    ultimately show False using all_tail by blast
  qed
  then show "\<forall>c\<in>set k. is_whitespace c"
    by (simp add: dropWhile_eq_Nil_conv)
next
  assume "\<forall>c\<in>set k. is_whitespace c"
  then show "trim k = []"
    by (auto simp: trim_def dest: set_dropWhileD)
qed

lemma trim_nonempty_arg: "trim k \<noteq> [] \<Longrightarrow> k \<noteq> []"
  by (auto simp: trim_def)




subsection \<open>The authority client\<close>

lemma parseIncluded_Inr_iff:
  "(\<exists>acts. parseIncluded v = Inr acts) \<longleftrightarrow>
     (case v of None \<Rightarrow> True | Some JNull \<Rightarrow> True
      | Some (JArr items) \<Rightarrow> JNull \<notin> set items | Some u \<Rightarrow> False)"
  by (cases v rule: parseIncluded.cases) auto

lemma parseValidation_decodable:
  assumes "payload_decodable payload"
  shows "\<exists>res. parseValidation payload = Inr res
           \<and> valid res = (meta_valid payload = Some (JBool True))
           \<and> code res = Some (if meta_valid payload = Some (JBool True) then ''VALID'' else ''INVALID'')"
proof -
  from assms have nn: "payload \<noteq> JNull" by (simp add: payload_decodable_def)
  then have rd: "read_member (Some payload) ''meta'' = Inr (member payload ''meta'')"
    by (cases payload) simp_all
  from assms obtain acts where inc: "parseIncluded (member payload ''included'') = Inr acts"
    using parseIncluded_Inr_iff [of "member payload ''included''"]
    by (auto simp: payload_decodable_def)
  show ?thesis
    by (simp add: parseValidation_def rd inc meta_valid_def Let_def)
qed

lemma parseValidation_undecodable:
  assumes "\<not> payload_decodable payload"
  shows "\<exists>err. parseValidation payload = Inl err"
proof (cases "payload = JNull")
  case True
  then show ?thesis by (simp add: parseValidation_def)
next
  case False
  then have rd: "read_member (Some payload) ''meta'' = Inr (member payload ''meta'')"
    by (cases payload) simp_all
  from assms False have "\<not> (\<exists>acts. parseIncluded (member payload ''included'') = Inr acts)"
    using parseIncluded_Inr_iff [of "member payload ''included''"]
    by (auto simp: payload_decodable_def)
  then obtain err where "parseIncluded (member payload ''included'') = Inl err"
    by (cases "parseIncluded (member payload ''included'')") auto
  then show ?thesis
    by (simp add: parseValidation_def rd Let_def)
qed

lemma keygen_validateLicense_requests:
  "trim k \<noteq> [] \<Longrightarrow>
     snd (keygen_validateLicense n (Some (JStr k))) = [ValidateKeyRequest (trim k)]"
  by (auto simp: keygen_validateLicense_def Let_def dest: trim_nonempty_arg)

lemma keygen_validateLicense_rejected:
  "trim k \<noteq> [] \<Longrightarrow> n (ValidateKeyRequest (trim k)) = Inl err \<Longrightarrow>
     fst (keygen_validateLicense n (Some (JStr k))) = validation_failure err ''NETWORK_ERROR''"
  by (auto simp: keygen_validateLicense_def Let_def dest: trim_nonempty_arg)

lemma read_member_Inr: "read_member (Some v) k = Inr x \<Longrightarrow> x = member v k"
  by (cases v) auto

lemma parseValidation_valid:
  "parseValidation payload = Inr res \<Longrightarrow> valid res = (meta_valid payload = Some (JBool True))"
  by (auto simp: parseValidation_def meta_valid_def Let_def split: sum.splits
        dest!: read_member_Inr)

lemma keygen_validateLicense_flag_not_true:
  assumes "trim k \<noteq> []" and "n (ValidateKeyRequest (trim k)) = Inr r" and "ok r"
    and "json_body r = Inr payload" and "meta_valid payload \<noteq> Some (JBool True)"
  shows "\<not> valid (fst (keygen_validateLicense n (Some (JStr k))))"
proof (cases "parseValidation payload")
  case (Inl e)
  with assms show ?thesis
    by (auto simp: keygen_validateLicense_def Let_def validation_failure_def
          dest: trim_nonempty_arg)
next
  case (Inr res)
  then have "\<not> valid res" using assms(5) by (simp add: parseValidation_valid)
  with assms Inr show ?thesis
    by (auto simp: keygen_validateLicense_def Let_def dest: trim_nonempty_arg)
qed


subsection \<open>The manager\<close>

lemma validateLicense_try_returns: "\<exists>b w'. validateLicense_try e w = (Inr b, w')"
  by (auto simp: validateLicense_try_def Let_def split: option.splits prod.splits bool.splits)

lemma validateLicense_not_valid:
  assumes "currentLicense w = Some l"
    and "\<not> valid (fst (keygen_validateLicense (net e) (key l)))"
  shows "validateLicense e w =
           (False, w\<lparr>requests := requests w @ snd (keygen_validateLicense (net e) (key l))\<rparr>)"
  using assms
  by (auto simp: validateLicense_def validateLicense_try_def Let_def
        split: prod.splits option.splits bool.splits)

lemma canPerformOperation_depends_on_license:
  "currentLicense w' = currentLicense w \<Longrightarrow>
     canPerformOperation w' operation = canPerformOperation w operation"
  by (simp add: canPerformOperation_def hasFeature_def getCurrentLicense_def
        split: option.splits property.splits)

lemma validateLicense_network_failure:
  assumes "currentLicense w = Some l" and "key l = Some (JStr k)" and "trim k \<noteq> []"
    and "net e (ValidateKeyRequest (trim k)) = Inl err"
  shows "validateLicense e w =
           (False, w\<lparr>requests := requests w @ [ValidateKeyRequest (trim k)]\<rparr>)"
proof -
  have "\<not> valid (fst (keygen_validateLicense (net e) (key l)))"
    using assms by (simp add: keygen_validateLicense_rejected validation_failure_def)
  with assms(1) show ?thesis
    using assms(2,3) by (simp add: validateLicense_not_valid keygen_validateLicense_requests)
qed


text \<open>What \<open>validateLicense\<close> does with a reply that is not valid, and with a
  valid reply that reports a status other than \<open>active\<close>.\<close>

lemma validateLicense_invalid_response:
  assumes "currentLicense w = Some l" and "key l = Some (JStr k)" and "trim k \<noteq> []"
    and "net e (ValidateKeyRequest (trim k)) = Inr r" and "ok r"
    and "json_body r = Inr payload" and "meta_valid payload \<noteq> Some (JBool True)"
  shows "validateLicense e w =
           (False, w\<lparr>requests := requests w @ [ValidateKeyRequest (trim k)]\<rparr>)
         \<and> currentLicense (snd (validateLicense e w)) = Some l
         \<and> licenseFile (snd (validateLicense e w)) = licenseFile w
         \<and> canPerformOperation (snd (validateLicense e w)) operation =
             canPerformOperation w operation"
proof -
  have "\<not> valid (fst (keygen_validateLicense (net e) (key l)))"
    using assms by (simp add: keygen_validateLicense_flag_not_true)
  with assms(1) have eq: "validateLicense e w =
      (False, w\<lparr>requests := requests w @ [ValidateKeyRequest (trim k)]\<rparr>)"
    using assms(2,3) by (simp add: validateLicense_not_valid keygen_validateLicense_requests)
  show ?thesis
    using assms(1) by (simp add: eq canPerformOperation_depends_on_license)
qed

lemma validateLicense_downgrades_on_status:
  "currentLicense (snd (validateLicense
      (machine (authority (replies 200 (license_payload True ''suspended'')) unreachable) True)
      licensed)) = Some (memory_license\<lparr>active := Some (JBool False)\<rparr>)
   \<and> \<not> canPerformOperation (snd (validateLicense
      (machine (authority (replies 200 (license_payload True ''suspended'')) unreachable) True)
      licensed)) ''remember''"
  by (simp add: validateLicense_def validateLicense_try_def keygen_validateLicense_def
        parseValidation_def parseLicenseData_def cacheLicense_def licensed_def
        machine_def authority_def replies_def license_payload_def license_data_def
        memory_license_def trim_def is_whitespace_def ok_def Let_def
        canPerformOperation_def getCurrentLicense_def)








text \<open>The manager caches licences with a key that is not blank only: a licence that
  \<open>activateLicense\<close> builds has the trimmed key, and \<open>validateLicense\<close> caches
  after a valid answer, which a blank key or a key that is not a string never gets.\<close>

lemma keygen_validateLicense_valid_key:
  "valid (fst (keygen_validateLicense n v)) \<Longrightarrow> \<exists>k. v = Some (JStr k) \<and> trim k \<noteq> []"
  by (auto simp: keygen_validateLicense_def validation_failure_def Let_def
        split: option.splits json.splits if_splits)

lemma build_license_key: "build_license e tk kl = Inr l \<Longrightarrow> key l = Some (JStr tk)"
  by (auto simp: build_license_def split: sum.splits)

lemma activateLicense_returns_key:
  "fst (activateLicense e k w) = Inr l \<Longrightarrow> key l = Some (JStr (trim k)) \<and> trim k \<noteq> []"
  by (auto simp: activateLicense_def Let_def case_prod_beta
        split: if_splits sum.splits option.splits bool.splits dest: build_license_key)

subsection \<open>The cache file\<close>

lemma map_of_defined_members:
  "distinct (map fst kvs) \<Longrightarrow>
     map_of (defined_members kvs) k = (case map_of kvs k of None \<Rightarrow> None | Some v \<Rightarrow> v)"
proof (induction kvs)
  case Nil
  then show ?case by (simp add: defined_members_def List.map_filter_simps)
next
  case (Cons kv kvs)
  obtain k' v' where kv: "kv = (k', v')" by (cases kv)
  from Cons.prems have d: "distinct (map fst kvs)" and nin: "k' \<notin> fst ` set kvs"
    by (auto simp: kv)
  have ih: "map_of (defined_members kvs) k = (case map_of kvs k of None \<Rightarrow> None | Some v \<Rightarrow> v)"
    using Cons.IH d by simp
  have absent: "map_of kvs k' = None" using nin by (simp add: map_of_eq_None_iff)
  show ?case
  proof (cases v')
    case None
    then have "defined_members (kv # kvs) = defined_members kvs"
      by (simp add: defined_members_def List.map_filter_simps kv)
    then show ?thesis using ih absent by (simp add: kv None)
  next
    case (Some j)
    then have "defined_members (kv # kvs) = (k', j) # defined_members kvs"
      by (simp add: defined_members_def List.map_filter_simps kv)
    then show ?thesis using ih by (simp add: kv Some)
  qed
qed

lemma member_cacheData:
  "member (cacheData t l) k =
     (case map_of
        [(''key'', key l), (''tier'', tier l), (''active'', active l),
         (''features'', features l), (''activatedAt'', activatedAt l),
         (''expiresAt'', expiresAt l), (''email'', email l),
         (''maxActivations'', maxActivations l),
         (''currentActivations'', currentActivations l),
         (''cachedAt'', Some (JStr t)), (''version'', Some (JStr ''2.0.0-keygen''))] k of
        None \<Rightarrow> None | Some v \<Rightarrow> v)"
  unfolding cacheData_def member.simps
  by (rule map_of_defined_members) simp

lemma read_member_cacheData:
  "read_member (Some (cacheData t l)) k = Inr (member (cacheData t l) k)"
  by (simp add: cacheData_def)

lemma map_of_map_values:
  "map_of (map (map_prod id f) kvs) k = map_option f (map_of kvs k)"
  by (induction kvs) auto

lemma member_as_written: "member (as_written v) k = map_option as_written (member v k)"
  by (cases v) (auto simp: map_of_map_values split: jsnumber.splits)

lemma written_string: "is_string v \<Longrightarrow> map_option as_written v = v"
  by (cases v rule: is_string.cases) auto

lemma written_boolean: "is_boolean v \<Longrightarrow> map_option as_written v = v"
  by (cases v rule: is_boolean.cases) auto

lemma written_finite: "is_finite_number v \<Longrightarrow> map_option as_written v = v"
  by (cases v rule: is_finite_number.cases) auto

lemma written_strings:
  "list_all (\<lambda>x. is_string (Some x)) xs \<Longrightarrow> map as_written xs = xs"
proof (induction xs)
  case Nil
  then show ?case by simp
next
  case (Cons x xs)
  then have "map_option as_written (Some x) = Some x" by (intro written_string) simp
  with Cons show ?case by simp
qed

lemma written_string_array: "is_string_array v \<Longrightarrow> map_option as_written v = v"
  by (cases v rule: is_string_array.cases) (auto simp: written_strings)

lemma written_optional:
  "optional p v \<Longrightarrow> (p v \<Longrightarrow> map_option as_written v = v) \<Longrightarrow> map_option as_written v = v"
  by (auto simp: optional_def)

lemma cached_license_written:
  assumes "conforms_License l"
    and "optional is_finite_number (maxActivations l)"
    and "is_finite_number (currentActivations l)"
  shows "cached_license (as_written (cacheData t l)) = l"
proof -
  from assms(1) have k: "map_option as_written (key l) = key l"
    by (simp add: conforms_License_def written_string)
  from assms(1) have ti: "map_option as_written (tier l) = tier l"
    by (simp add: conforms_License_def written_string)
  from assms(1) have a: "map_option as_written (active l) = active l"
    by (simp add: conforms_License_def written_boolean)
  from assms(1) have f: "map_option as_written (features l) = features l"
    by (simp add: conforms_License_def written_string_array)
  from assms(1) have at: "map_option as_written (activatedAt l) = activatedAt l"
    by (simp add: conforms_License_def written_string)
  from assms(1) have "optional is_string (expiresAt l)" by (simp add: conforms_License_def)
  then have ex: "map_option as_written (expiresAt l) = expiresAt l"
    by (rule written_optional) (rule written_string)
  from assms(1) have "optional is_string (email l)" by (simp add: conforms_License_def)
  then have em: "map_option as_written (email l) = email l"
    by (rule written_optional) (rule written_string)
  from assms(2) have m: "map_option as_written (maxActivations l) = maxActivations l"
    by (rule written_optional) (rule written_finite)
  from assms(3) have c: "map_option as_written (currentActivations l) = currentActivations l"
    by (rule written_finite)
  from assms(1) obtain fs where fs: "features l = Some (JArr fs)"
    by (cases "features l" rule: is_string_array.cases) (auto simp: conforms_License_def)
  from assms(3) obtain q where q: "currentActivations l = Some (JNum (Finite q))"
    by (cases "currentActivations l" rule: is_finite_number.cases) auto
  have "cached_license (as_written (cacheData t l)) =
      \<lparr> key = key l, tier = tier l, active = active l,
        features = Some (js_or (features l) (JArr [])),
        activatedAt = activatedAt l, expiresAt = expiresAt l, email = email l,
        maxActivations = maxActivations l,
        currentActivations = Some (js_or (currentActivations l) (JNum (Finite 0))) \<rparr>"
    by (simp add: cached_license_def member_as_written member_cacheData k ti a f at ex em m c)
  also have "\<dots> = l" by (simp add: fs q)
  finally show ?thesis .
qed

lemma loadCachedLicense_written:
  assumes "readable e" and "is_string (key l)" and "key l \<noteq> Some (JStr [])"
  shows "loadCachedLicense e \<lparr> currentLicense = None,
            licenseFile = Some (JsonText (as_written (cacheData t l))), requests = [] \<rparr> =
         \<lparr> currentLicense = Some (cached_license (as_written (cacheData t l))),
           licenseFile = Some (JsonText (as_written (cacheData t l))), requests = [] \<rparr>"
proof -
  from assms(2,3) obtain s where s: "key l = Some (JStr s)" "s \<noteq> []"
    by (cases "key l" rule: is_string.cases) auto
  have "as_written (cacheData t l) \<noteq> JNull" by (simp add: cacheData_def)
  then have "read_member (Some (as_written (cacheData t l))) ''version'' =
      Inr (member (as_written (cacheData t l)) ''version'')"
    by (cases "as_written (cacheData t l)") simp_all
  then have v: "read_member (Some (as_written (cacheData t l))) ''version'' =
      Inr (Some (JStr ''2.0.0-keygen''))"
    by (simp add: member_as_written member_cacheData)
  have ky: "truthy (member (as_written (cacheData t l)) ''key'')"
    by (simp add: member_as_written member_cacheData s)
  show ?thesis
    using assms(1) by (simp add: loadCachedLicense_def v ky)
qed

lemma loadCachedLicense_version_mismatch:
  assumes "readable e" and "cached \<noteq> JNull"
    and "member cached ''version'' \<noteq> Some (JStr ''2.0.0-keygen'')"
    and "licenseFile w = Some (JsonText cached)"
  shows "loadCachedLicense e w = w"
proof -
  from assms(2) have "read_member (Some cached) ''version'' = Inr (member cached ''version'')"
    by (cases cached) simp_all
  with assms show ?thesis by (simp add: loadCachedLicense_def)
qed

lemma loadCachedLicense_unparseable:
  "writable e \<Longrightarrow> licenseFile w = Some Unparseable \<Longrightarrow>
     loadCachedLicense e w = w\<lparr>licenseFile := None\<rparr>"
  by (simp add: loadCachedLicense_def clear_invalid_cache_def)

section \<open>The claims\<close>

text \<open>C1. The claim is that \<open>validateLicense\<close>, on a network failure, answers with
  the cached \<open>active\<close> flag. The \<open>catch\<close> block of \<open>validateLicense\<close> does that,
  but it is never entered (\<open>validateLicense_try_returns\<close>): the authority client
  turns a rejected \<open>fetch\<close> into a result with \<open>valid = false\<close>, and
  \<open>validateLicense\<close> answers \<open>false\<close> to every such result
  (\<open>validateLicense_network_failure\<close>). With an active cached licence and an
  unreachable authority, nothing is thrown and the cached licence is unchanged, but the
  answer is \<open>false\<close>, not the cached \<open>true\<close>.\<close>

theorem validateLicense_offline_returns_false:
  "active memory_license = Some (JBool True)
   \<and> validateLicense (machine (authority unreachable unreachable) True) licensed =
       (False, licensed\<lparr>requests := [ValidateKeyRequest ''LIC-123'']\<rparr>)"
proof -
  have "validateLicense (machine (authority unreachable unreachable) True) licensed =
      (False, licensed\<lparr>requests := requests licensed @ [ValidateKeyRequest (trim ''LIC-123'')]\<rparr>)"
    by (rule validateLicense_network_failure [where l = memory_license and err = "Text ''fetch failed''"])
       (simp_all add: licensed_def memory_license_def machine_def authority_def unreachable_def
          trim_def is_whitespace_def)
  then show ?thesis
    by (simp add: licensed_def memory_license_def trim_def is_whitespace_def)
qed

text \<open>C2. The claim is that a reply whose flag \<open>meta.valid\<close> is \<open>false\<close> makes the
  cached licence inactive, so that \<open>canPerformOperation\<close> denies every operation
  mapped to a feature. \<open>validateLicense\<close> writes the authority's answer into the
  cached licence only in its branch for \<open>valid = true\<close>, where a status other than
  \<open>active\<close> does make the licence inactive
  (\<open>validateLicense_downgrades_on_status\<close>); on \<open>valid = false\<close> it returns
  \<open>false\<close> and changes nothing (\<open>validateLicense_invalid_response\<close>). After a
  reply with \<open>meta.valid = false\<close> and status \<open>suspended\<close>, the active licence of
  tier \<open>memory\<close> is still cached as active and \<open>canPerformOperation\<close> still
  allows \<open>remember\<close>.\<close>

theorem validateLicense_invalid_keeps_active:
  "active memory_license = Some (JBool True)
   \<and> currentLicense (snd (validateLicense
        (machine (authority (replies 200 (license_payload False ''suspended'')) unreachable) True)
        licensed)) = Some memory_license
   \<and> canPerformOperation (snd (validateLicense
        (machine (authority (replies 200 (license_payload False ''suspended'')) unreachable) True)
        licensed)) ''remember''"
  by (simp add: validateLicense_def validateLicense_try_def keygen_validateLicense_def
        parseValidation_def parseLicenseData_def licensed_def memory_license_def machine_def
        authority_def replies_def trim_def is_whitespace_def ok_def license_payload_def
        license_data_def
        canPerformOperation_def hasFeature_def getCurrentLicense_def requiredFeature_def
        operationFeatureMap_def memory_features_def Let_def)

text \<open>C3, as the code has it. A licence key that is empty or consists of white space
  only makes \<open>activateLicense\<close> fail without any request to the authority and without
  any change of the manager or the licence file. The error carries a message and no
  reason code: ``License key is required and must be a string'' for the empty key,
  ``License key cannot be empty'' for white space. The authority client, given such a
  key, sends no request either and answers with the code \<open>INVALID_INPUT\<close> for the
  empty key and \<open>EMPTY_KEY\<close> for white space.\<close>

theorem activateLicense_malformed_key:
  assumes "\<forall>c\<in>set k. is_whitespace c"
  shows "activateLicense e k w =
           (Inl (Text (if k = [] then ''License key is required and must be a string''
                       else ''License key cannot be empty'')), w)
         \<and> keygen_validateLicense n (Some (JStr k)) =
           (validation_failure
              (Text (if k = [] then ''License key is required and must be a string''
                     else ''License key cannot be empty''))
              (if k = [] then ''INVALID_INPUT'' else ''EMPTY_KEY''), [])"
proof -
  have "trim k = []" using assms by (simp add: trim_empty_iff)
  then show ?thesis
    by (simp add: activateLicense_def keygen_validateLicense_def)
qed

theorem activateLicense_malformed_key_witness:
  "activateLicense (machine (authority unreachable unreachable) True) ''  '' unlicensed =
     (Inl (Text ''License key cannot be empty''), unlicensed)
   \<and> code (fst (keygen_validateLicense (authority unreachable unreachable)
               (Some (JStr ''  '')))) = Some ''EMPTY_KEY''"
  using activateLicense_malformed_key
    [of "''  ''" "machine (authority unreachable unreachable) True" unlicensed
        "authority unreachable unreachable"]
  by (simp add: is_whitespace_def validation_failure_def)

text \<open>C3, as the claim has it, fails at the key of three spaces: the error of
  \<open>activateLicense\<close> is a message without a reason code, and the only reason code the
  code gives such a key, in the authority client, is not \<open>INVALID_INPUT\<close>.\<close>

theorem activateLicense_blank_key_counterexample:
  "fst (activateLicense (machine (authority unreachable unreachable) True) ''   '' unlicensed)
     = Inl (Text ''License key cannot be empty'')
   \<and> code (fst (keygen_validateLicense (authority unreachable unreachable)
               (Some (JStr ''   '')))) \<noteq> Some ''INVALID_INPUT''"
  by (simp add: activateLicense_def keygen_validateLicense_def trim_def is_whitespace_def
        validation_failure_def)

text \<open>C4. For a key that is not blank, the authority client sends one request and
  maps the outcome as follows. A rejected \<open>fetch\<close>, a body that cannot be read, a
  body that is not JSON and a payload that cannot be decoded give \<open>NETWORK_ERROR\<close>;
  status 401 gives \<open>UNAUTHORIZED\<close>, status 404 \<open>LICENSE_NOT_FOUND\<close>, any other
  status outside 200..299 \<open>SERVICE_ERROR\<close>; on a status in 200..299 with a decodable
  payload, \<open>valid\<close> holds exactly when the flag \<open>meta.valid\<close> is \<open>true\<close>, and the
  code is \<open>VALID\<close> then, \<open>INVALID\<close> when the flag is \<open>false\<close> or absent. In each
  case but the last \<open>valid\<close> is \<open>false\<close>.\<close>

theorem keygen_validateLicense_outcomes:
  assumes "trim k \<noteq> []"
  shows "let reply = n (ValidateKeyRequest (trim k));
             res = fst (keygen_validateLicense n (Some (JStr k)))
         in (reply = Inl err \<longrightarrow> \<not> valid res \<and> code res = Some ''NETWORK_ERROR'')
          \<and> (reply = Inr r \<and> \<not> ok r \<and> text_body r = Inl err \<longrightarrow>
                \<not> valid res \<and> code res = Some ''NETWORK_ERROR'')
          \<and> (reply = Inr r \<and> status r = 401 \<and> text_body r = Inr t \<longrightarrow>
                \<not> valid res \<and> code res = Some ''UNAUTHORIZED'')
          \<and> (reply = Inr r \<and> status r = 404 \<and> text_body r = Inr t \<longrightarrow>
                \<not> valid res \<and> code res = Some ''LICENSE_NOT_FOUND'')
          \<and> (reply = Inr r \<and> \<not> ok r \<and> status r \<noteq> 401 \<and> status r \<noteq> 404
                \<and> text_body r = Inr t \<longrightarrow>
                \<not> valid res \<and> code res = Some ''SERVICE_ERROR'')
          \<and> (reply = Inr r \<and> ok r \<and> json_body r = Inl err \<longrightarrow>
                \<not> valid res \<and> code res = Some ''NETWORK_ERROR'')
          \<and> (reply = Inr r \<and> ok r \<and> json_body r = Inr payload
                \<and> \<not> payload_decodable payload \<longrightarrow>
                \<not> valid res \<and> code res = Some ''NETWORK_ERROR'')
          \<and> (reply = Inr r \<and> ok r \<and> json_body r = Inr payload
                \<and> payload_decodable payload \<longrightarrow>
                valid res = (meta_valid payload = Some (JBool True))
                \<and> code res = Some (if valid res then ''VALID'' else ''INVALID''))"
proof -
  from assms have k: "k \<noteq> []" by (rule trim_nonempty_arg)
  define res where "res = fst (keygen_validateLicense n (Some (JStr k)))"
  have unfold: "res =
      (case n (ValidateKeyRequest (trim k)) of
         Inl e \<Rightarrow> validation_failure e ''NETWORK_ERROR''
       | Inr r \<Rightarrow>
           if \<not> ok r then
             (case text_body r of
                Inl e \<Rightarrow> validation_failure e ''NETWORK_ERROR''
              | Inr errorText \<Rightarrow>
                  if status r = 401 then
                    validation_failure (Text ''Invalid API credentials'') ''UNAUTHORIZED''
                  else if status r = 404 then
                    validation_failure (Text ''License key not found'') ''LICENSE_NOT_FOUND''
                  else
                    validation_failure (Text ''License validation service unavailable'')
                      ''SERVICE_ERROR'')
           else
             (case json_body r of
                Inl e \<Rightarrow> validation_failure e ''NETWORK_ERROR''
              | Inr data \<Rightarrow>
                  (case parseValidation data of
                     Inl e \<Rightarrow> validation_failure e ''NETWORK_ERROR''
                   | Inr result \<Rightarrow> result)))"
    using assms k by (simp add: res_def keygen_validateLicense_def Let_def)
  have fetch: "n (ValidateKeyRequest (trim k)) = Inl err \<longrightarrow>
      \<not> valid res \<and> code res = Some ''NETWORK_ERROR''"
    by (simp add: unfold validation_failure_def)
  have body: "n (ValidateKeyRequest (trim k)) = Inr r \<and> \<not> ok r \<and> text_body r = Inl err \<longrightarrow>
      \<not> valid res \<and> code res = Some ''NETWORK_ERROR''"
    by (simp add: unfold validation_failure_def)
  have s401: "n (ValidateKeyRequest (trim k)) = Inr r \<and> status r = 401 \<and> text_body r = Inr t \<longrightarrow>
      \<not> valid res \<and> code res = Some ''UNAUTHORIZED''"
    by (simp add: unfold validation_failure_def ok_def)
  have s404: "n (ValidateKeyRequest (trim k)) = Inr r \<and> status r = 404 \<and> text_body r = Inr t \<longrightarrow>
      \<not> valid res \<and> code res = Some ''LICENSE_NOT_FOUND''"
    by (simp add: unfold validation_failure_def ok_def)
  have other: "n (ValidateKeyRequest (trim k)) = Inr r \<and> \<not> ok r \<and> status r \<noteq> 401
      \<and> status r \<noteq> 404 \<and> text_body r = Inr t \<longrightarrow>
      \<not> valid res \<and> code res = Some ''SERVICE_ERROR''"
    by (simp add: unfold validation_failure_def)
  have parse: "n (ValidateKeyRequest (trim k)) = Inr r \<and> ok r \<and> json_body r = Inl err \<longrightarrow>
      \<not> valid res \<and> code res = Some ''NETWORK_ERROR''"
    by (simp add: unfold validation_failure_def)
  have shape: "n (ValidateKeyRequest (trim k)) = Inr r \<and> ok r \<and> json_body r = Inr payload
      \<and> \<not> payload_decodable payload \<longrightarrow>
      \<not> valid res \<and> code res = Some ''NETWORK_ERROR''"
  proof (intro impI, elim conjE)
    assume a: "n (ValidateKeyRequest (trim k)) = Inr r" "ok r" "json_body r = Inr payload"
      and "\<not> payload_decodable payload"
    then obtain e where "parseValidation payload = Inl e"
      using parseValidation_undecodable by blast
    with a show "\<not> valid res \<and> code res = Some ''NETWORK_ERROR''"
      by (simp add: unfold validation_failure_def)
  qed
  have decoded: "n (ValidateKeyRequest (trim k)) = Inr r \<and> ok r \<and> json_body r = Inr payload
      \<and> payload_decodable payload \<longrightarrow>
      valid res = (meta_valid payload = Some (JBool True))
      \<and> code res = Some (if valid res then ''VALID'' else ''INVALID'')"
  proof (intro impI, elim conjE)
    assume a: "n (ValidateKeyRequest (trim k)) = Inr r" "ok r" "json_body r = Inr payload"
      and "payload_decodable payload"
    then obtain res0 where r0: "parseValidation payload = Inr res0"
        "valid res0 = (meta_valid payload = Some (JBool True))"
        "code res0 = Some (if meta_valid payload = Some (JBool True) then ''VALID''
                           else ''INVALID'')"
      using parseValidation_decodable by blast
    from a r0(1) have "res = res0" by (simp add: unfold)
    with r0 show "valid res = (meta_valid payload = Some (JBool True))
      \<and> code res = Some (if valid res then ''VALID'' else ''INVALID'')"
      by simp
  qed
  from fetch body s401 s404 other parse shape decoded show ?thesis
    unfolding Let_def res_def by blast
qed

theorem keygen_validateLicense_outcomes_witness:
  "code (fst (keygen_validateLicense (authority unreachable unreachable)
            (Some (JStr '' LIC-123 '')))) = Some ''NETWORK_ERROR''
   \<and> code (fst (keygen_validateLicense
            (authority (Inr \<lparr> status = 401, text_body = Inr ''denied'',
                               json_body = Inl EngineText \<rparr>) unreachable)
            (Some (JStr '' LIC-123 '')))) = Some ''UNAUTHORIZED''
   \<and> code (fst (keygen_validateLicense
            (authority (replies 200 (license_payload False ''suspended'')) unreachable)
            (Some (JStr '' LIC-123 '')))) = Some ''INVALID''
   \<and> valid (fst (keygen_validateLicense
            (authority (replies 200 (license_payload True ''active'')) unreachable)
            (Some (JStr '' LIC-123 ''))))"
  using
    keygen_validateLicense_outcomes
      [of "'' LIC-123 ''" "authority unreachable unreachable" "Text ''fetch failed''"]
    keygen_validateLicense_outcomes
      [of "'' LIC-123 ''"
          "authority (Inr \<lparr> status = 401, text_body = Inr ''denied'',
                             json_body = Inl EngineText \<rparr>) unreachable"
          _ "\<lparr> status = 401, text_body = Inr ''denied'', json_body = Inl EngineText \<rparr>"
          "''denied''"]
    keygen_validateLicense_outcomes
      [of "'' LIC-123 ''"
          "authority (replies 200 (license_payload False ''suspended'')) unreachable"
          _ "\<lparr> status = 200, text_body = Inr ''{}'',
               json_body = Inr (license_payload False ''suspended'') \<rparr>"
          _ "license_payload False ''suspended''"]
    keygen_validateLicense_outcomes
      [of "'' LIC-123 ''"
          "authority (replies 200 (license_payload True ''active'')) unreachable"
          _ "\<lparr> status = 200, text_body = Inr ''{}'',
               json_body = Inr (license_payload True ''active'') \<rparr>"
          _ "license_payload True ''active''"]
  by (simp add: trim_def is_whitespace_def authority_def unreachable_def replies_def
        license_payload_def license_data_def payload_decodable_def meta_valid_def ok_def
        Let_def)

text \<open>C5, as the code has it. \<open>canPerformOperation\<close> returns \<open>false\<close> for every
  operation name when no licence is cached or the cached licence is not active. With
  an active licence it returns \<open>true\<close> for every operation name that is not empty,
  has no entry in the operation-to-feature map and is not the name of a property that
  the map object inherits from \<open>Object.prototype\<close>.\<close>

theorem canPerformOperation_gate:
  "(currentLicense w = None \<longrightarrow> \<not> canPerformOperation w operation)
   \<and> (currentLicense w = Some l \<and> \<not> truthy (active l) \<longrightarrow>
        \<not> canPerformOperation w operation)
   \<and> (currentLicense w = Some l \<and> truthy (active l) \<and> operation \<noteq> []
        \<and> map_of operationFeatureMap operation = None
        \<and> operation \<notin> set object_prototype_names \<longrightarrow>
        canPerformOperation w operation)"
  by (simp add: canPerformOperation_def getCurrentLicense_def requiredFeature_def)

theorem canPerformOperation_gate_witness:
  "\<not> canPerformOperation unlicensed ''status''
   \<and> \<not> canPerformOperation (licensed\<lparr>currentLicense :=
          Some (memory_license\<lparr>active := Some (JBool False)\<rparr>)\<rparr>) ''remember''
   \<and> canPerformOperation licensed ''status''"
  using canPerformOperation_gate [of unlicensed "''status''"]
    canPerformOperation_gate
      [of "licensed\<lparr>currentLicense := Some (memory_license\<lparr>active := Some (JBool False)\<rparr>)\<rparr>"
          "''remember''" "memory_license\<lparr>active := Some (JBool False)\<rparr>"]
    canPerformOperation_gate [of licensed "''status''" memory_license]
  by (simp add: unlicensed_def licensed_def memory_license_def operationFeatureMap_def
        object_prototype_names_def)

text \<open>C5, as the claim has it, fails for the empty operation name: it has no entry
  in the map, the licence is active, and the guard at the head of
  \<open>canPerformOperation\<close> returns \<open>false\<close>.\<close>

theorem canPerformOperation_empty_name_counterexample:
  "currentLicense licensed = Some memory_license
   \<and> active memory_license = Some (JBool True)
   \<and> map_of operationFeatureMap [] = None
   \<and> \<not> canPerformOperation licensed []"
  by (simp add: licensed_def memory_license_def operationFeatureMap_def canPerformOperation_def)

text \<open>The names that the map object inherits are denied as well: the read
  \<open>operationFeatureMap['toString']\<close> finds a function, which \<open>hasFeature\<close>
  rejects.\<close>

lemma canPerformOperation_inherited_name:
  "map_of operationFeatureMap ''toString'' = None
   \<and> \<not> canPerformOperation licensed ''toString''"
  by (simp add: licensed_def memory_license_def operationFeatureMap_def canPerformOperation_def
        getCurrentLicense_def requiredFeature_def object_prototype_names_def)




text \<open>Outside the types above, the log lines at the end of \<open>activateLicense\<close> may
  throw: for a tier that is an object with a member \<open>toString\<close> the licence is
  cached and made the current one, and then \<open>activateLicense\<close> throws.\<close>

lemma activateLicense_log_failure:
  "fst (activateLicense
      (machine (authority (replies 200 unprintable_payload) (refuses 422)) True)
      ''LIC-123'' unlicensed) = Inl EngineText
   \<and> map_option key (currentLicense (snd (activateLicense
      (machine (authority (replies 200 unprintable_payload) (refuses 422)) True)
      ''LIC-123'' unlicensed))) = Some (Some (JStr ''LIC-123''))
   \<and> licenseFile (snd (activateLicense
      (machine (authority (replies 200 unprintable_payload) (refuses 422)) True)
      ''LIC-123'' unlicensed)) \<noteq> None"
  by (simp add: activateLicense_def keygen_validateLicense_def keygen_activateLicense_def
        parseValidation_def parseLicenseData_def build_license_def determineTier_def
        determineFeatures_def cacheLicense_def or_undefined_def activation_failure_def
        log_license_def unprintable_payload_def
        machine_def authority_def replies_def refuses_def
        unlicensed_def trim_def is_whitespace_def ok_def Let_def)

text \<open>C7. The claim is that a cache file of an unknown schema version is deleted on
  load. \<open>loadCachedLicense\<close> removes the file in its \<open>catch\<close> block only, that is
  when the file cannot be read or parsed (\<open>loadCachedLicense_unparseable\<close>); a
  parsed file of another version is skipped and left in place
  (\<open>loadCachedLicense_version_mismatch\<close>). For the cache file of version
  \<open>1.0.0\<close> the new manager holds no licence and \<open>getCurrentLicense\<close> throws the
  no-licence error, as claimed, but the file is still there.\<close>

theorem stale_cache_kept:
  "new_LicenseServiceKeygen (machine (authority unreachable unreachable) True)
       (Some (JsonText stale_cache)) =
     \<lparr> currentLicense = None, licenseFile = Some (JsonText stale_cache), requests = [] \<rparr>
   \<and> getCurrentLicense (new_LicenseServiceKeygen
         (machine (authority unreachable unreachable) True) (Some (JsonText stale_cache))) =
       Inl (Text ''No active license found. Please run: codecontextpro activate <LICENSE_KEY>'')"
proof -
  have "loadCachedLicense (machine (authority unreachable unreachable) True)
          \<lparr> currentLicense = None, licenseFile = Some (JsonText stale_cache), requests = [] \<rparr> =
        \<lparr> currentLicense = None, licenseFile = Some (JsonText stale_cache), requests = [] \<rparr>"
    by (rule loadCachedLicense_version_mismatch) (simp_all add: machine_def stale_cache_def)
  then show ?thesis
    by (simp add: new_LicenseServiceKeygen_def getCurrentLicense_def)
qed

text \<open>C8, as the code has it. A licence whose fields have the declared types, whose
  key is not the empty string and whose numbers are finite, written to the cache file
  by a machine that can write it, is the current licence of a new manager that can
  read the file: every field is as it was written, and \<open>cachedAt\<close> and \<open>version\<close>
  are not part of it.\<close>

theorem cache_roundtrip:
  assumes "conforms_License l" and "key l \<noteq> Some (JStr [])"
    and "optional is_finite_number (maxActivations l)"
    and "is_finite_number (currentActivations l)"
    and "writable e" and "readable e'"
  shows "currentLicense (new_LicenseServiceKeygen e' (licenseFile (cacheLicense e l w))) = Some l"
proof -
  from assms(1) have "is_string (key l)" by (simp add: conforms_License_def)
  then show ?thesis
    using assms(2,5,6)
    by (simp add: new_LicenseServiceKeygen_def cacheLicense_def loadCachedLicense_written
          cached_license_written [OF assms(1,3,4)])
qed

theorem cache_roundtrip_witness:
  "currentLicense (new_LicenseServiceKeygen (machine (authority unreachable unreachable) True)
     (licenseFile (cacheLicense (machine (authority unreachable unreachable) True)
        memory_license unlicensed))) = Some memory_license"
  using cache_roundtrip
    [of memory_license "machine (authority unreachable unreachable) True"
        "machine (authority unreachable unreachable) True" unlicensed]
  by (simp add: conforms_License_def memory_license_def memory_features_def machine_def
        optional_def)

text \<open>C8, as the claim has it, fails for a licence without a bound on activations.
  \<open>activateLicense\<close> builds it from a payload whose \<open>maxActivations\<close> reads as
  \<open>Infinity\<close> and writes it to the cache file, where \<open>JSON.stringify\<close> puts
  \<open>null\<close> for the number; the new manager loads the licence with
  \<open>maxActivations = null\<close>.\<close>

theorem cache_roundtrip_infinity_counterexample:
  "fst (activateLicense
      (machine (authority (replies 200 unbounded_payload) (refuses 422)) True)
      ''LIC-123'' unlicensed) =
     Inr (memory_license\<lparr>maxActivations := Some (JNum PlusInfinity)\<rparr>)
   \<and> conforms_License (memory_license\<lparr>maxActivations := Some (JNum PlusInfinity)\<rparr>)
   \<and> currentLicense (new_LicenseServiceKeygen
        (machine (authority (replies 200 unbounded_payload) (refuses 422)) True)
        (licenseFile (snd (activateLicense
           (machine (authority (replies 200 unbounded_payload) (refuses 422)) True)
           ''LIC-123'' unlicensed)))) =
       Some (memory_license\<lparr>maxActivations := Some JNull\<rparr>)"
  by (simp add: activateLicense_def keygen_validateLicense_def keygen_activateLicense_def
        parseValidation_def parseLicenseData_def build_license_def determineTier_def
        determineFeatures_def cacheLicense_def or_undefined_def activation_failure_def
        log_license_def memory_features_def unbounded_payload_def
        machine_def authority_def replies_def refuses_def
        memory_license_def unlicensed_def trim_def is_whitespace_def ok_def Let_def
        conforms_License_def optional_def new_LicenseServiceKeygen_def loadCachedLicense_def
        cached_license_def cacheData_def defined_members_def)

text \<open>The condition on the key stands for what the manager guarantees
  (\<open>activateLicense_returns_key\<close>, \<open>keygen_validateLicense_valid_key\<close>): a cache
  whose key is the empty string would not be loaded.\<close>

lemma cache_roundtrip_needs_key:
  "conforms_License (memory_license\<lparr>key := Some (JStr [])\<rparr>)
   \<and> currentLicense (new_LicenseServiceKeygen (machine (authority unreachable unreachable) True)
        (licenseFile (cacheLicense (machine (authority unreachable unreachable) True)
           (memory_license\<lparr>key := Some (JStr [])\<rparr>) unlicensed))) = None"
  by (simp add: conforms_License_def memory_license_def memory_features_def machine_def
        optional_def new_LicenseServiceKeygen_def cacheLicense_def loadCachedLicense_def
        unlicensed_def cacheData_def defined_members_def)




text \<open>C10. \<open>getLicenseStatus\<close> returns a status record in every state: whatever is
  thrown in its \<open>try\<close> block is caught and answered with the record of the
  unlicensed state. Without a cached licence the record is tier \<open>none\<close>, inactive,
  no features, no activations used, and neither days remaining nor a maximum of
  activations.\<close>

theorem getLicenseStatus_total:
  "(case getLicenseStatus_try e w of
      Inr s \<Rightarrow> getLicenseStatus e w = s
    | Inl err \<Rightarrow>
        getLicenseStatus e w =
          \<lparr> st_tier = Some (JStr ''none''), st_active = Some (JBool False),
            st_features = Some (JArr []), st_daysRemaining = None,
            st_activationsUsed = Some (JNum (Finite 0)), st_maxActivations = None,
            st_mock = False \<rparr>)
   \<and> (currentLicense w = None \<longrightarrow>
        getLicenseStatus e w =
          \<lparr> st_tier = Some (JStr ''none''), st_active = Some (JBool False),
            st_features = Some (JArr []), st_daysRemaining = None,
            st_activationsUsed = Some (JNum (Finite 0)), st_maxActivations = None,
            st_mock = False \<rparr>)"
  by (simp add: getLicenseStatus_def getLicenseStatus_try_def getCurrentLicense_def
        split: sum.splits)

theorem getLicenseStatus_total_witness:
  "getLicenseStatus (machine (authority unreachable unreachable) True) unlicensed =
     \<lparr> st_tier = Some (JStr ''none''), st_active = Some (JBool False),
       st_features = Some (JArr []), st_daysRemaining = None,
       st_activationsUsed = Some (JNum (Finite 0)), st_maxActivations = None, st_mock = False \<rparr>"
  using getLicenseStatus_total
    [of "machine (authority unreachable unreachable) True" unlicensed]
  by (simp add: unlicensed_def)

end
